theory Spec2Isabelle
  imports Main
begin

section \<open>Python values the reporting code relies on\<close>

text \<open>
  The exceptions that the modelled functions can raise. \<open>ValueError\<close> carries its
  message, since \<open>generate_ipmt_excel\<close> re-raises with a message of its own.
\<close>

datatype py_error =
    ValueError string
  | IndexError
  | KeyError
  | DoesNotExist
  | MultipleObjectsReturned
  | DatabaseError
  | IntegrityError
  | InvalidOperation

subsection \<open>Strings\<close>

text \<open>
  \<open>str.lower\<close> on ASCII letters; every other character is left as it is.
\<close>

definition lower_char :: "char \<Rightarrow> char" where
  "lower_char c =
     (case map_of (zip ''ABCDEFGHIJKLMNOPQRSTUVWXYZ'' ''abcdefghijklmnopqrstuvwxyz'') c of
        None \<Rightarrow> c
      | Some d \<Rightarrow> d)"

definition lower :: "string \<Rightarrow> string" where
  "lower s = map lower_char s"

text \<open>
  The characters \<open>str.split()\<close>, \<open>str.strip()\<close> and \<open>int\<close> treat as white space:
  tab, line feed, vertical tab, form feed, carriage return, the four separators
  \<open>0x1c\<close> to \<open>0x1f\<close> and the space.
\<close>

definition is_space :: "char \<Rightarrow> bool" where
  "is_space c \<longleftrightarrow>
     List.member
       [CHR 0x09, CHR 0x0A, CHR 0x0B, CHR 0x0C, CHR 0x0D,
        CHR 0x1C, CHR 0x1D, CHR 0x1E, CHR 0x1F, CHR '' ''] c"

definition strip :: "string \<Rightarrow> string" where
  "strip s = rev (dropWhile is_space (rev (dropWhile is_space s)))"

text \<open>\<open>sub in s\<close> on strings: \<open>sub\<close> occurs in \<open>s\<close> as a contiguous run.\<close>

fun starts_with :: "string \<Rightarrow> string \<Rightarrow> bool" where
  "starts_with [] s = True"
| "starts_with (c # cs) [] = False"
| "starts_with (c # cs) (d # ds) = (c = d \<and> starts_with cs ds)"

fun contains :: "string \<Rightarrow> string \<Rightarrow> bool" where
  "contains sub [] = (sub = [])"
| "contains sub (d # ds) = (starts_with sub (d # ds) \<or> contains sub ds)"

text \<open>
  \<open>s.split(sep)\<close> for a one-character separator: the pieces between the separators,
  empty pieces kept, so the result always has at least one element.
\<close>

fun split_on :: "char \<Rightarrow> string \<Rightarrow> string list" where
  "split_on sep [] = [[]]"
| "split_on sep (c # cs) =
     (if c = sep then [] # split_on sep cs
      else (case split_on sep cs of
              [] \<Rightarrow> [[c]]
            | p # ps \<Rightarrow> (c # p) # ps))"

text \<open>
  \<open>s.split()\<close> with no separator: the maximal runs of characters that are not white
  space; the result is empty for an empty or blank string. The second argument is the
  word being read.
\<close>

fun split_ws_acc :: "string \<Rightarrow> string \<Rightarrow> string list" where
  "split_ws_acc [] w = (if w = [] then [] else [rev w])"
| "split_ws_acc (c # cs) w =
     (if is_space c then (if w = [] then split_ws_acc cs [] else rev w # split_ws_acc cs [])
      else split_ws_acc cs (c # w))"

definition split_ws :: "string \<Rightarrow> string list" where
  "split_ws s = split_ws_acc s []"

text \<open>\<open>p.split()[0]\<close>: the first word, \<open>IndexError\<close> when there is none.\<close>

definition first_token :: "string \<Rightarrow> py_error + string" where
  "first_token p = (case split_ws p of [] \<Rightarrow> Inl IndexError | w # _ \<Rightarrow> Inr w)"

text \<open>\<open>sep.join(parts)\<close>.\<close>

fun join :: "string \<Rightarrow> string list \<Rightarrow> string" where
  "join sep [] = []"
| "join sep [p] = p"
| "join sep (p # q # ps) = p @ sep @ join sep (q # ps)"

subsection \<open>Numbers as text\<close>

definition digit_val :: "char \<Rightarrow> nat option" where
  "digit_val c =
     map_of (zip ''0123456789'' [0, 1, 2, 3, 4, 5, 6, 7, 8, 9]) c"

text \<open>
  The digits of an integer literal, most significant first, with the value read so
  far. Python allows single underscores between digits; \<open>prev_digit\<close> says whether
  the previous character was a digit, so that an underscore is legal here.
\<close>

fun parse_digits :: "string \<Rightarrow> bool \<Rightarrow> nat \<Rightarrow> nat option" where
  "parse_digits [] prev_digit acc = (if prev_digit then Some acc else None)"
| "parse_digits (c # cs) prev_digit acc =
     (if c = CHR ''_'' then (if prev_digit then parse_digits cs False acc else None)
      else (case digit_val c of
              None \<Rightarrow> None
            | Some d \<Rightarrow> parse_digits cs True (10 * acc + d)))"

text \<open>
  \<open>int(s)\<close> on a string: surrounding white space is dropped, one sign is allowed, the
  rest must be decimal digits. \<open>None\<close> stands for the \<open>ValueError\<close>.
\<close>

definition py_int :: "string \<Rightarrow> int option" where
  "py_int s =
     (case strip s of
        [] \<Rightarrow> None
      | c # cs \<Rightarrow>
          if c = CHR ''-'' then map_option (\<lambda>n. - int n) (parse_digits cs False 0)
          else if c = CHR ''+'' then map_option int (parse_digits cs False 0)
          else map_option int (parse_digits (c # cs) False 0))"

definition digit_char :: "nat \<Rightarrow> char" where
  "digit_char d = ''0123456789'' ! (d mod 10)"

text \<open>\<open>str(n)\<close> for a natural number: its decimal digits, most significant first.\<close>

fun str_nat :: "nat \<Rightarrow> string" where
  "str_nat n =
     (if n < 10 then [digit_char n] else str_nat (n div 10) @ [digit_char n])"

declare str_nat.simps [simp del]

text \<open>\<open>f"{year}"\<close> and \<open>f"{month_num:02d}"\<close> (a minimum width of two, sign included).\<close>

definition str_int :: "int \<Rightarrow> string" where
  "str_int i = (if i < 0 then CHR ''-'' # str_nat (nat (- i)) else str_nat (nat i))"

definition fmt_02d :: "int \<Rightarrow> string" where
  "fmt_02d i = (let s = str_int i in if length s < 2 then CHR ''0'' # s else s)"

subsection \<open>Decimal amounts\<close>

text \<open>
  A \<open>Decimal\<close>: an integer coefficient and the number of digits after the point, so
  that \<open>\<lparr>dec_coeff = 12050, dec_places = 2\<rparr>\<close> is 120.50 and
  \<open>\<lparr>dec_coeff = 5, dec_places = 3\<rparr>\<close> is 0.005. Addition is exact and keeps the
  longer fraction; the 28 digits at which Python's default context would round a sum are
  outside the model.
\<close>

record decimal =
  dec_coeff :: int
  dec_places :: nat

definition dec_add :: "decimal \<Rightarrow> decimal \<Rightarrow> decimal" where
  "dec_add a b =
     (let p = max (dec_places a) (dec_places b)
      in \<lparr>dec_coeff = dec_coeff a * 10 ^ (p - dec_places a)
                       + dec_coeff b * 10 ^ (p - dec_places b),
          dec_places = p\<rparr>)"

text \<open>
  The quotient of \<open>n\<close> by a positive \<open>d\<close> rounded to the nearest integer, a tie going
  to the even one: the rounding of the decimal context.
\<close>

definition round_half_even :: "int \<Rightarrow> int \<Rightarrow> int" where
  "round_half_even n d =
     (let q = n div d; r = n mod d
      in if 2 * r < d then q
         else if d < 2 * r then q + 1
         else if even q then q else q + 1)"

text \<open>
  What a column \<open>DecimalField(max_digits=12, decimal_places=2)\<close> takes of a decimal
  when it is written: the amount in hundredths, rounded when the decimal has more than
  two places, and refused with \<open>InvalidOperation\<close> when it needs more than twelve
  digits.
\<close>

definition hundredths :: "decimal \<Rightarrow> int" where
  "hundredths d =
     (if dec_places d \<le> 2 then dec_coeff d * 10 ^ (2 - dec_places d)
      else round_half_even (dec_coeff d) (10 ^ (dec_places d - 2)))"

definition db_decimal :: "decimal option \<Rightarrow> py_error + decimal option" where
  "db_decimal v =
     (case v of
        None \<Rightarrow> Inr None
      | Some d \<Rightarrow>
          if \<bar>hundredths d\<bar> < 10 ^ 12
          then Inr (Some \<lparr>dec_coeff = hundredths d, dec_places = 2\<rparr>)
          else Inl InvalidOperation)"

section \<open>Data model\<close>

text \<open>
  The models of \<open>apps/gso_reports/models.py\<close>, and the fields that the reporting code
  reads of the models it imports from \<open>apps.gso_accounts\<close> and \<open>apps.gso_requests\<close>.
  A foreign key is the object it points to, as the object-relational mapper presents
  it; a many-to-many field is the list of the related objects. For a user,
  \<open>full_name\<close> is what \<open>get_full_name()\<close> returns.
\<close>

record gso_unit =
  u_id :: nat
  u_name :: string

record user =
  user_id :: nat
  first_name :: string
  full_name :: string
  username :: string

record department =
  department_name :: string

record date =
  d_year :: int
  d_month :: int
  d_day :: int

record datetime =
  dt_date :: date
  dt_seconds :: nat
  dt_aware :: bool

datatype date_value = Date date | DateTime datetime

record service_request =
  sr_id :: nat
  sr_department :: "department option"
  sr_unit :: "gso_unit option"
  sr_description :: string
  sr_created_at :: datetime
  sr_assigned_personnel :: "user list"
  sr_status :: string
  sr_rating :: "int option"

record activity_name =
  an_name :: string
  an_keywords :: string
  an_is_active :: bool

text \<open>
  Modelled from the spec: the field \<open>activity_name\<close> of \<open>SuccessIndicator\<close> and of
  \<open>WorkAccomplishmentReport\<close>. \<open>save_ipmt\<close> and the background tasks read it and
  \<open>models.py\<close> does not declare it; the spec calls it the indicator's classified
  activity. It is the label of an activity here (\<open>si_activity_name\<close>,
  \<open>war_activity_name\<close>).
\<close>

record success_indicator =
  si_id :: nat
  si_unit :: gso_unit
  si_code :: string
  si_description :: string
  si_is_active :: bool
  si_activity_name :: string

text \<open>
  A cost field of an object in memory holds a decimal of any number of places, or
  \<open>None\<close>; a stored row holds what the columns took of them. An object that was never
  saved has no \<open>war_id\<close>. The time stamps of the models (\<open>created_at\<close>, \<open>updated_at\<close>) record the
  clock and are left out, as are \<open>date_completed\<close> and \<open>control_number\<close>, which no
  modelled function reads.
\<close>

record work_accomplishment_report =
  war_id :: "nat option"
  war_request :: "service_request option"
  war_unit :: gso_unit
  war_assigned_personnel :: "user list"
  war_date_started :: date_value
  war_project_name :: "string option"
  war_description :: string
  war_status :: string
  material_cost :: "decimal option"
  labor_cost :: "decimal option"
  total_cost :: "decimal option"
  war_activity_name :: string

record ipmt_draft =
  draft_id :: nat
  draft_personnel :: user
  draft_unit :: gso_unit
  draft_month :: string
  draft_indicator :: success_indicator
  draft_accomplishment :: "string option"
  draft_remarks :: "string option"
  draft_status :: string
  draft_reports :: "nat set"

section \<open>Saving a work accomplishment report\<close>

text \<open>
  \<open>x or 0\<close> on a cost: \<open>None\<close> and a zero decimal both give the integer zero.
\<close>

definition or0 :: "decimal option \<Rightarrow> decimal" where
  "or0 v =
     (case v of
        None \<Rightarrow> \<lparr>dec_coeff = 0, dec_places = 0\<rparr>
      | Some d \<Rightarrow> if dec_coeff d = 0 then \<lparr>dec_coeff = 0, dec_places = 0\<rparr> else d)"

text \<open>
  The arguments that the repository passes to \<open>save\<close>: none (the background task and
  the admin site), or \<open>update_fields=["description"]\<close> (the accomplishment report view).
\<close>

datatype save_args = Plain | Update_description

text \<open>
  The row that a plain save writes for an object. Each of the three cost columns takes
  its own field, rounded to two places on its own; then the database refuses the row
  with \<open>IntegrityError\<close> when a cost is \<open>NULL\<close>, since no cost column is declared
  \<open>null=True\<close>.
\<close>

definition stored_row :: "work_accomplishment_report \<Rightarrow> py_error + work_accomplishment_report" where
  "stored_row obj =
     (case db_decimal (material_cost obj) of
        Inl e \<Rightarrow> Inl e
      | Inr m \<Rightarrow>
          (case db_decimal (labor_cost obj) of
             Inl e \<Rightarrow> Inl e
           | Inr l \<Rightarrow>
               (case db_decimal (total_cost obj) of
                  Inl e \<Rightarrow> Inl e
                | Inr t \<Rightarrow>
                    if m = None \<or> l = None \<or> t = None then Inl IntegrityError
                    else Inr (obj\<lparr>material_cost := m, labor_cost := l, total_cost := t\<rparr>))))"

text \<open>
  The table of stored reports is the list of its rows. \<open>model_save\<close> is the persist
  step of the framework, \<open>super().save(*args, **kwargs)\<close>: a plain save writes the row
  of the object under the object's primary key, or inserts it (under a new key when the
  object has none), and leaves the object in memory as it is; a save restricted to the
  description rewrites that column of the existing row and nothing else, and fails when
  there is no such row.
\<close>

definition fresh_war_id :: "work_accomplishment_report list \<Rightarrow> nat" where
  "fresh_war_id tbl = Suc (fold max (List.map_filter war_id tbl) 0)"

definition model_save ::
  "work_accomplishment_report \<Rightarrow> save_args \<Rightarrow> work_accomplishment_report list \<Rightarrow>
   py_error + (work_accomplishment_report \<times> work_accomplishment_report list)" where
  "model_save self args tbl =
     (case args of
        Plain \<Rightarrow>
          (case war_id self of
             None \<Rightarrow>
               (let obj = self\<lparr>war_id := Some (fresh_war_id tbl)\<rparr>
                in case stored_row obj of
                     Inl e \<Rightarrow> Inl e
                   | Inr row \<Rightarrow> Inr (obj, tbl @ [row]))
           | Some i \<Rightarrow>
               (case stored_row self of
                  Inl e \<Rightarrow> Inl e
                | Inr row \<Rightarrow>
                    if list_ex (\<lambda>r. war_id r = Some i) tbl
                    then Inr (self, map (\<lambda>r. if war_id r = Some i then row else r) tbl)
                    else Inr (self, tbl @ [row])))
      | Update_description \<Rightarrow>
          (case war_id self of
             None \<Rightarrow> Inl (ValueError ''Cannot force an update in save() with no primary key.'')
           | Some i \<Rightarrow>
               if list_ex (\<lambda>r. war_id r = Some i) tbl
               then Inr (self,
                      map (\<lambda>r. if war_id r = Some i
                                then r\<lparr>war_description := war_description self\<rparr> else r) tbl)
               else Inl DatabaseError))"

text \<open>\<open>WorkAccomplishmentReport.save\<close>: the total is set from the two costs, then the
  object is persisted.\<close>

definition save ::
  "work_accomplishment_report \<Rightarrow> save_args \<Rightarrow> work_accomplishment_report list \<Rightarrow>
   py_error + (work_accomplishment_report \<times> work_accomplishment_report list)" where
  "save self args tbl =
     model_save
       (self\<lparr>total_cost := Some (dec_add (or0 (material_cost self)) (or0 (labor_cost self)))\<rparr>)
       args tbl"


section \<open>Record Normalizer\<close>

text \<open>
  The objects that \<open>normalize_report\<close> may be handed: a service request, a work
  accomplishment report, or an object of any other class (named by its class).
\<close>

datatype report_object =
    A_service_request service_request
  | A_work_accomplishment_report work_accomplishment_report
  | Another_object string

record normalized_report =
  nr_type :: string
  nr_source :: string
  nr_requesting_office :: string
  nr_description :: string
  nr_unit :: string
  nr_date :: datetime
  nr_personnel :: "string list"
  nr_status :: string
  nr_rating :: "int option"

text \<open>\<open>p.get_full_name() or p.username\<close>.\<close>

definition display_name :: "user \<Rightarrow> string" where
  "display_name p = (if full_name p \<noteq> [] then full_name p else username p)"

definition personnel_list :: "user list \<Rightarrow> string list" where
  "personnel_list assigned =
     (if assigned \<noteq> [] then map display_name assigned else [''Unassigned''])"

text \<open>
  \<open>timezone.make_aware\<close> attaches the default time zone; the zone itself is not
  modelled, only that the value carries one.
\<close>

definition make_aware :: "datetime \<Rightarrow> datetime" where
  "make_aware dt = dt\<lparr>dt_aware := True\<rparr>"

definition midnight :: "date \<Rightarrow> datetime" where
  "midnight d = \<lparr>dt_date = d, dt_seconds = 0, dt_aware = False\<rparr>"

definition normalize_date :: "date_value \<Rightarrow> datetime" where
  "normalize_date date_value =
     (case date_value of
        DateTime dt \<Rightarrow> if \<not> dt_aware dt then make_aware dt else dt
      | Date d \<Rightarrow> make_aware (midnight d))"

text \<open>
  \<open>normalize_report\<close>. The result is \<open>None\<close> where the Python function falls off its
  end. A work accomplishment report has neither a \<open>requesting_office\<close> nor a \<open>rating\<close>
  attribute, so the two \<open>getattr\<close> defaults apply; its unit is a mandatory foreign
  key, so \<open>obj.unit\<close> is always there.
\<close>

definition normalize_report :: "report_object \<Rightarrow> normalized_report option" where
  "normalize_report obj =
     (case obj of
        A_service_request r \<Rightarrow>
          Some \<lparr>nr_type = ''ServiceRequest'',
                nr_source = ''Live'',
                nr_requesting_office =
                  (case sr_department r of Some d \<Rightarrow> department_name d | None \<Rightarrow> ''''),
                nr_description = sr_description r,
                nr_unit = (case sr_unit r of Some u \<Rightarrow> u_name u | None \<Rightarrow> ''''),
                nr_date = sr_created_at r,
                nr_personnel = personnel_list (sr_assigned_personnel r),
                nr_status = sr_status r,
                nr_rating = sr_rating r\<rparr>
      | A_work_accomplishment_report w \<Rightarrow>
          Some \<lparr>nr_type = ''WorkAccomplishmentReport'',
                nr_source = (if war_request w \<noteq> None then ''Live'' else ''Migrated''),
                nr_requesting_office =
                  (case war_request w of
                     Some r \<Rightarrow>
                       (case sr_department r of Some d \<Rightarrow> department_name d | None \<Rightarrow> '''')
                   | None \<Rightarrow> ''''),
                nr_description = war_description w,
                nr_unit =
                  (case war_request w of
                     Some r \<Rightarrow>
                       (case sr_unit r of
                          Some u \<Rightarrow> u_name u
                        | None \<Rightarrow> u_name (war_unit w))
                   | None \<Rightarrow> u_name (war_unit w)),
                nr_date = normalize_date (war_date_started w),
                nr_personnel = personnel_list (war_assigned_personnel w),
                nr_status = (if war_status w \<noteq> [] then war_status w else ''Completed''),
                nr_rating = None\<rparr>
      | Another_object cls \<Rightarrow> None)"

section \<open>Activity Classifier\<close>

text \<open>
  \<open>ActivityName.keyword_list\<close>: the comma-separated keywords, stripped and lower-cased,
  blank ones dropped.
\<close>

definition keyword_list :: "activity_name \<Rightarrow> string list" where
  "keyword_list self =
     map (\<lambda>kw. lower (strip kw))
       (filter (\<lambda>kw. strip kw \<noteq> []) (split_on CHR '','' (an_keywords self)))"

text \<open>
  The activity table is the list of its rows in the order the database yields them.
  \<open>ActivityName.objects.filter(name="Miscellaneous").first()\<close>: names are unique, so
  there is at most one such row; \<open>None\<close> when there is none.
\<close>

definition miscellaneous :: "activity_name list \<Rightarrow> activity_name option" where
  "miscellaneous tbl = List.find (\<lambda>a. an_name a = ''Miscellaneous'') tbl"

text \<open>The loop of \<open>map_activity_name\<close> over \<open>ActivityName.objects.all()\<close>.\<close>

definition keyword_hit :: "string \<Rightarrow> activity_name \<Rightarrow> bool" where
  "keyword_hit description activity =
     list_ex (\<lambda>kw. contains kw description) (keyword_list activity)"

fun first_keyword_match :: "string \<Rightarrow> activity_name list \<Rightarrow> activity_name option" where
  "first_keyword_match description [] = None"
| "first_keyword_match description (activity # rest) =
     (if keyword_hit description activity then Some activity
      else first_keyword_match description rest)"

text \<open>
  \<open>map_activity_name\<close>. The result is a sum so that raising and returning \<open>None\<close> are
  told apart: \<open>Inl\<close> would be an exception, \<open>Inr None\<close> is the value \<open>None\<close>.
\<close>

definition map_activity_name ::
  "string \<Rightarrow> activity_name list \<Rightarrow> py_error + activity_name option" where
  "map_activity_name description tbl =
     (if description = [] then Inr (miscellaneous tbl)
      else (case first_keyword_match (lower description) tbl of
              Some activity \<Rightarrow> Inr (Some activity)
            | None \<Rightarrow> Inr (miscellaneous tbl)))"

text \<open>
  \<open>map_activity_name_from_reports\<close>, the caller in the same module: it tests the first
  result for \<open>None\<close> with \<open>or\<close> and tries the request's own description.
\<close>

definition map_activity_name_from_reports ::
  "string list \<Rightarrow> string \<Rightarrow> activity_name list \<Rightarrow> py_error + activity_name option" where
  "map_activity_name_from_reports report_texts description tbl =
     (case map_activity_name (join '' '' report_texts) tbl of
        Inl e \<Rightarrow> Inl e
      | Inr (Some activity) \<Rightarrow> Inr (Some activity)
      | Inr None \<Rightarrow> map_activity_name description tbl)"

section \<open>The record store\<close>

text \<open>
  The tables the reporting code queries, each the list of its rows in the order the
  database yields them. \<open>first_by pk\<close> is \<open>QuerySet.first()\<close> on a query with no
  ordering of its own: the row with the least primary key.
\<close>

record database =
  units :: "gso_unit list"
  users :: "user list"
  success_indicators :: "success_indicator list"
  wars :: "work_accomplishment_report list"
  ipmt_drafts :: "ipmt_draft list"

fun first_by :: "('a \<Rightarrow> nat) \<Rightarrow> 'a list \<Rightarrow> 'a option" where
  "first_by pk [] = None"
| "first_by pk (x # xs) =
     (case first_by pk xs of
        None \<Rightarrow> Some x
      | Some y \<Rightarrow> if pk x \<le> pk y then Some x else Some y)"

text \<open>The lookup \<open>__iexact\<close>: equality up to the case of letters.\<close>

definition iexact :: "string \<Rightarrow> string \<Rightarrow> bool" where
  "iexact a b \<longleftrightarrow> lower a = lower b"

text \<open>
  \<open>Unit.objects.get(name__iexact=unit_name)\<close>. The name may be \<open>None\<close>, the default of
  the parameter; the lookup then asks for a unit without a name, and there is none.
\<close>

definition get_unit :: "gso_unit list \<Rightarrow> string option \<Rightarrow> py_error + gso_unit" where
  "get_unit tbl name =
     (case (case name of
              None \<Rightarrow> []
            | Some n \<Rightarrow> filter (\<lambda>u. iexact (u_name u) n) tbl) of
        [] \<Rightarrow> Inl DoesNotExist
      | [u] \<Rightarrow> Inr u
      | _ \<Rightarrow> Inl MultipleObjectsReturned)"

definition date_of :: "date_value \<Rightarrow> date" where
  "date_of v = (case v of Date d \<Rightarrow> d | DateTime dt \<Rightarrow> dt_date dt)"

definition in_month :: "int \<Rightarrow> int \<Rightarrow> work_accomplishment_report \<Rightarrow> bool" where
  "in_month year month_num war \<longleftrightarrow>
     d_year (date_of (war_date_started war)) = year
     \<and> d_month (date_of (war_date_started war)) = month_num"

section \<open>Indicator Matcher\<close>

record ipmt_report =
  rep_indicator :: string
  rep_description :: string
  rep_remarks :: "string option"
  rep_war_id :: "nat option"

text \<open>\<open>"all" in [p.lower() for p in personnel_names]\<close>.\<close>

definition names_all :: "string list \<Rightarrow> bool" where
  "names_all personnel_names \<longleftrightarrow> List.member (map lower personnel_names) ''all''"

text \<open>\<open>[p.split()[0] for p in personnel_names]\<close>; a blank name raises.\<close>

fun first_tokens :: "string list \<Rightarrow> py_error + string list" where
  "first_tokens [] = Inr []"
| "first_tokens (p # ps) =
     (case first_token p of
        Inl e \<Rightarrow> Inl e
      | Inr w \<Rightarrow> (case first_tokens ps of Inl e \<Rightarrow> Inl e | Inr ws \<Rightarrow> Inr (w # ws)))"

text \<open>
  \<open>wars.filter(assigned_personnel__first_name__in=names)\<close>: the filter joins the
  reports with their personnel, so a report comes once for each of its people whose
  first name is listed.
\<close>

definition filter_by_first_name ::
  "string list \<Rightarrow> work_accomplishment_report list \<Rightarrow> work_accomplishment_report list" where
  "filter_by_first_name names tbl =
     concat (map (\<lambda>war. map (\<lambda>p. war)
                    (filter (\<lambda>p. List.member names (first_name p))
                       (war_assigned_personnel war))) tbl)"

text \<open>The inner loop: the first report, in scan order, whose lower-cased description
  contains the indicator's lower-cased description; the loop breaks there.\<close>

definition war_matches :: "success_indicator \<Rightarrow> work_accomplishment_report \<Rightarrow> bool" where
  "war_matches indicator war \<longleftrightarrow>
     contains (lower (si_description indicator)) (lower (war_description war))"

fun find_matched_war ::
  "success_indicator \<Rightarrow> work_accomplishment_report list \<Rightarrow>
   work_accomplishment_report option" where
  "find_matched_war indicator [] = None"
| "find_matched_war indicator (war # rest) =
     (if war_matches indicator war then Some war else find_matched_war indicator rest)"

text \<open>\<open>f"{year}-{month_num:02d}"\<close>.\<close>

definition month_key :: "int \<Rightarrow> int \<Rightarrow> string" where
  "month_key year month_num = str_int year @ ''-'' @ fmt_02d month_num"

text \<open>The body of the outer loop: the row built for one indicator.\<close>

definition report_row ::
  "database \<Rightarrow> gso_unit \<Rightarrow> int \<Rightarrow> int \<Rightarrow> work_accomplishment_report list \<Rightarrow>
   success_indicator \<Rightarrow> ipmt_report" where
  "report_row db unit year month_num candidates indicator =
     (let matched_war = find_matched_war indicator candidates;
          description = (case matched_war of Some war \<Rightarrow> war_description war | None \<Rightarrow> '''');
          ipmt_draft =
            first_by draft_id
              (filter (\<lambda>d. si_id (draft_indicator d) = si_id indicator
                          \<and> u_id (draft_unit d) = u_id unit
                          \<and> draft_month d = month_key year month_num)
                 (ipmt_drafts db));
          remarks = (case ipmt_draft of Some d \<Rightarrow> draft_remarks d | None \<Rightarrow> Some '''')
      in \<lparr>rep_indicator = si_code indicator,
          rep_description = description,
          rep_remarks = remarks,
          rep_war_id = (case matched_war of Some war \<Rightarrow> war_id war | None \<Rightarrow> None)\<rparr>)"

text \<open>The active indicators of a unit, and the reports of a unit and month.\<close>

definition active_indicators :: "database \<Rightarrow> gso_unit \<Rightarrow> success_indicator list" where
  "active_indicators db unit =
     filter (\<lambda>i. u_id (si_unit i) = u_id unit \<and> si_is_active i)
       (success_indicators db)"

definition unit_month_wars ::
  "database \<Rightarrow> gso_unit \<Rightarrow> int \<Rightarrow> int \<Rightarrow> work_accomplishment_report list" where
  "unit_month_wars db unit year month_num =
     filter (\<lambda>w. u_id (war_unit w) = u_id unit \<and> in_month year month_num w) (wars db)"

text \<open>
  The candidate reports of a call: those of the unit and month, narrowed to the named
  personnel unless no name is given or \<open>"all"\<close> is among the names.
\<close>

definition candidate_wars ::
  "database \<Rightarrow> gso_unit \<Rightarrow> int \<Rightarrow> int \<Rightarrow> string list option \<Rightarrow>
   py_error + work_accomplishment_report list" where
  "candidate_wars db unit year month_num personnel_names =
     (let month_wars = unit_month_wars db unit year month_num
      in case personnel_names of
           None \<Rightarrow> Inr month_wars
         | Some names \<Rightarrow>
             if names \<noteq> [] \<and> \<not> names_all names
             then (case first_tokens names of
                     Inl e \<Rightarrow> Inl e
                   | Inr tokens \<Rightarrow> Inr (filter_by_first_name tokens month_wars))
             else Inr month_wars)"

text \<open>
  \<open>collect_ipmt_reports\<close>. The candidate reports are fetched once and scanned in the
  same order for every indicator.
\<close>

definition collect_ipmt_reports ::
  "database \<Rightarrow> int \<Rightarrow> int \<Rightarrow> string option \<Rightarrow> string list option \<Rightarrow>
   py_error + ipmt_report list" where
  "collect_ipmt_reports db year month_num unit_name personnel_names =
     (case get_unit (units db) unit_name of
        Inl DoesNotExist \<Rightarrow> Inr []
      | Inl e \<Rightarrow> Inl e
      | Inr unit \<Rightarrow>
          (case candidate_wars db unit year month_num personnel_names of
             Inl e \<Rightarrow> Inl e
           | Inr candidates \<Rightarrow>
               Inr (map (report_row db unit year month_num candidates)
                      (active_indicators db unit))))"

section \<open>Export Builder\<close>

text \<open>
  \<open>year, month_num = map(int, month_filter.split("-"))\<close>, with the \<open>ValueError\<close> of a
  failed conversion or of an unpacking of more or fewer than two parts raised again
  with the message of \<open>generate_ipmt_excel\<close>.
\<close>

definition parse_month_filter :: "string \<Rightarrow> py_error + (int \<times> int)" where
  "parse_month_filter month_filter =
     (case map py_int (split_on CHR ''-'' month_filter) of
        [Some year, Some month_num] \<Rightarrow> Inr (year, month_num)
      | _ \<Rightarrow> Inl (ValueError ''Month filter must be in 'YYYY-MM' format.''))"

text \<open>
  \<open>calendar.month_name[i]\<close>: a sequence of thirteen names, the first of them empty,
  indexed like a list (negative indices count from the end).
\<close>

definition month_names :: "string list" where
  "month_names =
     ['''', ''January'', ''February'', ''March'', ''April'', ''May'', ''June'', ''July'',
      ''August'', ''September'', ''October'', ''November'', ''December'']"

definition month_name :: "int \<Rightarrow> py_error + string" where
  "month_name i =
     (if - 13 \<le> i \<and> i \<le> 12 then Inr (month_names ! nat (i mod 13)) else Inl IndexError)"

datatype cell = Text string | Number nat | Blank

record sheet =
  sheet_title :: string
  sheet_columns :: "string list"
  sheet_rows :: "cell list list"
  sheet_notes :: "(nat \<times> nat \<times> string) list"

text \<open>
  The data frame of a person: the rows of the matcher under the renamed columns, or
  the one placeholder row when the matcher gave no row (\<open>df.empty\<close>).
\<close>

definition report_cells :: "ipmt_report \<Rightarrow> cell list" where
  "report_cells r =
     [Text (rep_indicator r), Text (rep_description r),
      (case rep_remarks r of Some s \<Rightarrow> Text s | None \<Rightarrow> Blank),
      (case rep_war_id r of Some i \<Rightarrow> Number i | None \<Rightarrow> Blank)]"

definition data_frame :: "ipmt_report list \<Rightarrow> string list \<times> cell list list" where
  "data_frame reports =
     (if reports = []
      then ([''Success Indicator'', ''Accomplishment'', ''Remarks''],
            [[Text ''N/A'', Text ''No reports'', Text '''']])
      else ([''Success Indicator'', ''Accomplishment'', ''Remarks'', ''war_id''],
            map report_cells reports))"

definition sheet_title_of :: "string \<Rightarrow> string" where
  "sheet_title_of person =
     (let t = (if length person > 30 then take 30 person else person)
      in if t \<noteq> [] then t else ''Unassigned'')"

text \<open>One turn of the loop over the personnel: the sheet written for \<open>person\<close>.\<close>

definition person_sheet ::
  "database \<Rightarrow> int \<Rightarrow> int \<Rightarrow> string option \<Rightarrow> string \<Rightarrow> py_error + sheet" where
  "person_sheet db year month_num unit_name person =
     (case collect_ipmt_reports db year month_num unit_name (Some [person]) of
        Inl e \<Rightarrow> Inl e
      | Inr reports \<Rightarrow>
          (case month_name month_num of
             Inl e \<Rightarrow> Inl e
           | Inr name \<Rightarrow>
               Inr \<lparr>sheet_title = sheet_title_of person,
                    sheet_columns = fst (data_frame reports),
                    sheet_rows = snd (data_frame reports),
                    sheet_notes =
                      [(0, 4, ''Month: '' @ name @ '' '' @ str_int year),
                       (1, 4, ''Personnel: '' @ person)]
                      @ (case unit_name of
                           None \<Rightarrow> []
                         | Some n \<Rightarrow> if n \<noteq> [] then [(2, 4, ''Unit: '' @ n)] else [])\<rparr>))"

fun person_sheets ::
  "database \<Rightarrow> int \<Rightarrow> int \<Rightarrow> string option \<Rightarrow> string list \<Rightarrow> py_error + sheet list" where
  "person_sheets db year month_num unit_name [] = Inr []"
| "person_sheets db year month_num unit_name (person # rest) =
     (case person_sheet db year month_num unit_name person of
        Inl e \<Rightarrow> Inl e
      | Inr s \<Rightarrow>
          (case person_sheets db year month_num unit_name rest of
             Inl e \<Rightarrow> Inl e
           | Inr ss \<Rightarrow> Inr (s # ss)))"

text \<open>
  The personnel to render when none is named or \<open>"all"\<close> is among the names: everyone
  assigned to a report of the month (of the unit, unless the unit is missing or
  \<open>"all"\<close>), each name once. Python collects them in a set, whose order is not fixed;
  here they come in the order they are met.
\<close>

definition month_personnel :: "database \<Rightarrow> int \<Rightarrow> int \<Rightarrow> string option \<Rightarrow> string list" where
  "month_personnel db year month_num unit_name =
     (let month_wars = filter (in_month year month_num) (wars db);
          unit_wars =
            (case unit_name of
               None \<Rightarrow> month_wars
             | Some n \<Rightarrow>
                 if n \<noteq> [] \<and> lower n \<noteq> ''all''
                 then filter (\<lambda>w. iexact (u_name (war_unit w)) n) month_wars
                 else month_wars)
      in remdups (concat (map (\<lambda>w. map display_name (war_assigned_personnel w)) unit_wars)))"

definition export_personnel ::
  "database \<Rightarrow> int \<Rightarrow> int \<Rightarrow> string option \<Rightarrow> string list option \<Rightarrow> string list" where
  "export_personnel db year month_num unit_name personnel_names =
     (case personnel_names of
        None \<Rightarrow> month_personnel db year month_num unit_name
      | Some names \<Rightarrow>
          if names = [] \<or> names_all names
          then month_personnel db year month_num unit_name
          else names)"

text \<open>
  \<open>generate_ipmt_excel\<close>. The workbook is the list of the sheets the loop writes, one
  for each person in turn; how the spreadsheet libraries store them, and the names they
  refuse for a sheet, are outside the model.
\<close>

definition generate_ipmt_excel ::
  "database \<Rightarrow> string \<Rightarrow> string option \<Rightarrow> string list option \<Rightarrow> py_error + sheet list" where
  "generate_ipmt_excel db month_filter unit_name personnel_names =
     (case parse_month_filter month_filter of
        Inl e \<Rightarrow> Inl e
      | Inr (year, month_num) \<Rightarrow>
          person_sheets db year month_num unit_name
            (export_personnel db year month_num unit_name personnel_names))"

text \<open>
  \<open>generate_ipmt\<close>, the view around it: the month is required, a \<open>ValueError\<close> of the
  builder is answered with status 400 and its message, any other exception leaves the
  view, and a workbook is served.
\<close>

datatype export_outcome =
    Bad_request string
  | Workbook "sheet list"
  | Uncaught py_error

definition generate_ipmt ::
  "database \<Rightarrow> string option \<Rightarrow> string \<Rightarrow> string list \<Rightarrow> export_outcome" where
  "generate_ipmt db month_filter unit_filter personnel_names =
     (case month_filter of
        None \<Rightarrow> Bad_request ''Month is required in 'YYYY-MM' format.''
      | Some mf \<Rightarrow>
          if mf = [] then Bad_request ''Month is required in 'YYYY-MM' format.''
          else (case generate_ipmt_excel db mf (Some unit_filter) (Some personnel_names) of
                  Inl (ValueError msg) \<Rightarrow> Bad_request msg
                | Inl e \<Rightarrow> Uncaught e
                | Inr wb \<Rightarrow> Workbook wb))"

section \<open>Aggregation and Draft Builder\<close>

text \<open>
  Modelled from the spec: the model \<open>IPMT\<close> that \<open>save_ipmt\<close> imports and
  \<open>models.py\<close> does not declare. It is the spec's performance draft, identified by
  person, unit, month and indicator, with the accomplishment, the remarks, the status
  and the linked reports: the fields of \<open>IPMTDraft\<close>, kept in the table of the drafts.
\<close>

text \<open>
  The body of the request, once parsed: a row of the \<open>rows\<close> list, with \<open>None\<close> for a
  key that the row does not have, and the payload around it.
\<close>

record ipmt_row =
  row_indicator :: "string option"
  row_war_ids :: "nat list option"
  row_description :: "string option"
  row_accomplishment :: "string option"
  row_remarks :: "string option"

record ipmt_payload =
  payload_month :: "string option"
  payload_unit :: "string option"
  payload_personnel :: "string list"
  payload_rows :: "ipmt_row list"

text \<open>A request: its method, and its body when that parses as JSON.\<close>

record http_request =
  request_method :: string
  request_body :: "ipmt_payload option"

text \<open>What the view does in the end: it answers with a status and a message, or an
  exception leaves it.\<close>

datatype http_outcome = Json_response nat string | Raised py_error

text \<open>\<open>a or b\<close> where \<open>a\<close> is a string or \<open>None\<close> and \<open>b\<close> a string.\<close>

definition text_or :: "string option \<Rightarrow> string \<Rightarrow> string" where
  "text_or a b = (case a of None \<Rightarrow> b | Some s \<Rightarrow> if s \<noteq> [] then s else b)"

text \<open>
  The user of a name: the first user whose first name is the first word of the name,
  else the first user with that username, both up to case.
\<close>

definition resolve_user :: "user list \<Rightarrow> string \<Rightarrow> py_error + user option" where
  "resolve_user tbl person_name =
     (case first_token person_name of
        Inl e \<Rightarrow> Inl e
      | Inr w \<Rightarrow>
          (case first_by user_id (filter (\<lambda>u. iexact (first_name u) w) tbl) of
             Some u \<Rightarrow> Inr (Some u)
           | None \<Rightarrow>
               Inr (first_by user_id (filter (\<lambda>u. iexact (username u) person_name) tbl))))"

definition resolve_indicator :: "database \<Rightarrow> gso_unit \<Rightarrow> string \<Rightarrow> success_indicator option" where
  "resolve_indicator db unit code =
     first_by si_id
       (filter (\<lambda>i. u_id (si_unit i) = u_id unit \<and> si_code i = code)
          (success_indicators db))"

text \<open>
  The reports of a row: those of the listed ids that are assigned to the user and carry
  the indicator's activity.
\<close>

definition resolve_wars ::
  "database \<Rightarrow> user \<Rightarrow> success_indicator \<Rightarrow> nat list \<Rightarrow> work_accomplishment_report list" where
  "resolve_wars db user indicator war_ids =
     filter (\<lambda>w. (case war_id w of None \<Rightarrow> False | Some i \<Rightarrow> List.member war_ids i)
                \<and> list_ex (\<lambda>p. user_id p = user_id user) (war_assigned_personnel w)
                \<and> war_activity_name w = si_activity_name indicator)
       (wars db)"

text \<open>
  The accomplishment text of a row. \<open>gen\<close> is \<open>generate_ipmt_summary\<close>, the text
  summarization service: \<open>save_ipmt\<close> imports it and these sources do not define it,
  so it is a parameter, a function of the indicator code and the descriptions.
\<close>

definition accomplishment_text ::
  "(string \<Rightarrow> string list \<Rightarrow> string) \<Rightarrow> success_indicator \<Rightarrow> ipmt_row \<Rightarrow>
   work_accomplishment_report list \<Rightarrow> string" where
  "accomplishment_text gen indicator row matched =
     (let accomplishment = text_or (row_description row) (text_or (row_accomplishment row) '''')
      in if accomplishment = [] \<and> matched \<noteq> []
         then (let war_descriptions = filter (\<lambda>s. s \<noteq> []) (map war_description matched)
               in if war_descriptions \<noteq> [] then gen (si_code indicator) war_descriptions
                  else accomplishment)
         else accomplishment)"

text \<open>The upsert key: person, unit, month and indicator.\<close>

definition key_matches ::
  "user \<Rightarrow> gso_unit \<Rightarrow> string \<Rightarrow> success_indicator \<Rightarrow> ipmt_draft \<Rightarrow> bool" where
  "key_matches user unit month indicator d \<longleftrightarrow>
     user_id (draft_personnel d) = user_id user
     \<and> u_id (draft_unit d) = u_id unit
     \<and> draft_month d = month
     \<and> si_id (draft_indicator d) = si_id indicator"

definition fresh_draft_id :: "ipmt_draft list \<Rightarrow> nat" where
  "fresh_draft_id tbl = Suc (fold max (map draft_id tbl) 0)"

text \<open>
  \<open>update_or_create\<close>: with no draft under the key, one is created with the defaults
  (and the status \<open>draft\<close>); with one, its accomplishment and remarks are rewritten and
  the row of its primary key is saved; with more than one the lookup raises.
\<close>

definition update_or_create ::
  "user \<Rightarrow> gso_unit \<Rightarrow> string \<Rightarrow> success_indicator \<Rightarrow> string \<Rightarrow> string \<Rightarrow>
   ipmt_draft list \<Rightarrow> py_error + (ipmt_draft \<times> ipmt_draft list)" where
  "update_or_create user unit month indicator accomplishment remarks tbl =
     (case filter (key_matches user unit month indicator) tbl of
        [] \<Rightarrow>
          (let obj = \<lparr>draft_id = fresh_draft_id tbl, draft_personnel = user,
                      draft_unit = unit, draft_month = month, draft_indicator = indicator,
                      draft_accomplishment = Some accomplishment,
                      draft_remarks = Some remarks, draft_status = ''draft'',
                      draft_reports = {}\<rparr>
           in Inr (obj, tbl @ [obj]))
      | [d] \<Rightarrow>
          (let obj = d\<lparr>draft_accomplishment := Some accomplishment,
                       draft_remarks := Some remarks\<rparr>
           in Inr (obj, map (\<lambda>r. if draft_id r = draft_id d then obj else r) tbl))
      | _ \<Rightarrow> Inl MultipleObjectsReturned)"

text \<open>\<open>ipmt_obj.reports.set(wars)\<close>: the links of the draft become the given reports.\<close>

definition set_reports :: "nat \<Rightarrow> nat set \<Rightarrow> ipmt_draft list \<Rightarrow> ipmt_draft list" where
  "set_reports i ids tbl =
     map (\<lambda>r. if draft_id r = i then r\<lparr>draft_reports := ids\<rparr> else r) tbl"

definition war_ids_of :: "work_accomplishment_report list \<Rightarrow> nat set" where
  "war_ids_of ws = set (List.map_filter war_id ws)"

text \<open>
  The body of the inner loop, for one user and one row, on the table of the drafts. A
  row without the key \<open>indicator\<close> raises; a row whose indicator is not found is
  skipped.
\<close>

definition save_row ::
  "(string \<Rightarrow> string list \<Rightarrow> string) \<Rightarrow> database \<Rightarrow> gso_unit \<Rightarrow> string \<Rightarrow> user \<Rightarrow>
   ipmt_row \<Rightarrow> ipmt_draft list \<Rightarrow> py_error + ipmt_draft list" where
  "save_row gen db unit month user row tbl =
     (case row_indicator row of
        None \<Rightarrow> Inl KeyError
      | Some code \<Rightarrow>
          (case resolve_indicator db unit code of
             None \<Rightarrow> Inr tbl
           | Some indicator \<Rightarrow>
               (let matched =
                      resolve_wars db user indicator
                        (case row_war_ids row of None \<Rightarrow> [] | Some ids \<Rightarrow> ids);
                    accomplishment = accomplishment_text gen indicator row matched;
                    remarks = text_or (row_remarks row) accomplishment
                in case update_or_create user unit month indicator accomplishment remarks tbl of
                     Inl e \<Rightarrow> Inl e
                   | Inr (obj, tbl') \<Rightarrow>
                       Inr (set_reports (draft_id obj) (war_ids_of matched) tbl'))))"

text \<open>
  The two loops. Every write is committed as it is made, so when an exception leaves
  the view the table keeps what was written before it; the result is the exception, if
  any, and the table.
\<close>

fun save_rows ::
  "(string \<Rightarrow> string list \<Rightarrow> string) \<Rightarrow> database \<Rightarrow> gso_unit \<Rightarrow> string \<Rightarrow> user \<Rightarrow>
   ipmt_row list \<Rightarrow> ipmt_draft list \<Rightarrow> py_error option \<times> ipmt_draft list" where
  "save_rows gen db unit month user [] tbl = (None, tbl)"
| "save_rows gen db unit month user (row # rest) tbl =
     (case save_row gen db unit month user row tbl of
        Inl e \<Rightarrow> (Some e, tbl)
      | Inr tbl' \<Rightarrow> save_rows gen db unit month user rest tbl')"

fun save_persons ::
  "(string \<Rightarrow> string list \<Rightarrow> string) \<Rightarrow> database \<Rightarrow> gso_unit \<Rightarrow> string \<Rightarrow>
   ipmt_row list \<Rightarrow> string list \<Rightarrow> ipmt_draft list \<Rightarrow> py_error option \<times> ipmt_draft list" where
  "save_persons gen db unit month rows [] tbl = (None, tbl)"
| "save_persons gen db unit month rows (person_name # rest) tbl =
     (case resolve_user (users db) person_name of
        Inl e \<Rightarrow> (Some e, tbl)
      | Inr None \<Rightarrow> save_persons gen db unit month rows rest tbl
      | Inr (Some user) \<Rightarrow>
          (case save_rows gen db unit month user rows tbl of
             (Some e, tbl') \<Rightarrow> (Some e, tbl')
           | (None, tbl') \<Rightarrow> save_persons gen db unit month rows rest tbl'))"

text \<open>\<open>save_ipmt\<close>: the answer of the view and the database it leaves.\<close>

definition save_ipmt ::
  "(string \<Rightarrow> string list \<Rightarrow> string) \<Rightarrow> http_request \<Rightarrow> database \<Rightarrow>
   http_outcome \<times> database" where
  "save_ipmt gen request db =
     (if request_method request \<noteq> ''POST'' then (Json_response 400 ''POST required'', db)
      else case request_body request of
        None \<Rightarrow> (Json_response 400 ''Invalid JSON'', db)
      | Some data \<Rightarrow>
          (let month = text_or (payload_month data) '''';
               unit_name = text_or (payload_unit data) ''''
           in if month = [] \<or> unit_name = [] \<or> payload_personnel data = []
                 \<or> payload_rows data = []
              then (Json_response 400 ''Missing required data'', db)
              else case first_by u_id (filter (\<lambda>u. iexact (u_name u) unit_name) (units db)) of
                None \<Rightarrow> (Json_response 404 (''Unit '' @ [CHR 0x27] @ unit_name @ [CHR 0x27] @ '' not found''), db)
              | Some unit \<Rightarrow>
                  (case save_persons gen db unit month (payload_rows data)
                          (payload_personnel data) (ipmt_drafts db) of
                     (Some e, tbl) \<Rightarrow> (Raised e, db\<lparr>ipmt_drafts := tbl\<rparr>)
                   | (None, tbl) \<Rightarrow> (Json_response 200 ''success'', db\<lparr>ipmt_drafts := tbl\<rparr>))))"

section \<open>The upsert loop as a run of operations\<close>

text \<open>
  For the proofs, the two loops of \<open>save_ipmt\<close> are read as one list of operations on
  the table of the drafts. Each person and row gives one operation, decided without
  looking at the drafts: it raises, it is skipped, or it upserts a draft. An upsert is
  given by its template, the row that a create would insert before the primary key is
  assigned; the key of a draft is its person, unit, month and indicator.
  \<open>save_row_is_apply_op\<close>, \<open>save_rows_run_ops\<close> and \<open>save_persons_run_ops\<close> below show
  that the loops of the source compute exactly this run.
\<close>

type_synonym draft_key = "nat \<times> nat \<times> string \<times> nat"

definition key_of :: "ipmt_draft \<Rightarrow> draft_key" where
  "key_of d =
     (user_id (draft_personnel d), u_id (draft_unit d), draft_month d,
      si_id (draft_indicator d))"

datatype draft_op = Fail py_error | Skip | Upsert ipmt_draft

definition set_values :: "ipmt_draft \<Rightarrow> ipmt_draft \<Rightarrow> ipmt_draft" where
  "set_values tpl r =
     r\<lparr>draft_accomplishment := draft_accomplishment tpl,
       draft_remarks := draft_remarks tpl,
       draft_reports := draft_reports tpl\<rparr>"

definition apply_op :: "draft_op \<Rightarrow> ipmt_draft list \<Rightarrow> py_error + ipmt_draft list" where
  "apply_op a tbl =
     (case a of
        Fail e \<Rightarrow> Inl e
      | Skip \<Rightarrow> Inr tbl
      | Upsert tpl \<Rightarrow>
          (case filter (\<lambda>d. key_of d = key_of tpl) tbl of
             [] \<Rightarrow> Inr (tbl @ [tpl\<lparr>draft_id := fresh_draft_id tbl\<rparr>])
           | [d] \<Rightarrow> Inr (map (\<lambda>r. if key_of r = key_of tpl then set_values tpl r else r) tbl)
           | _ \<Rightarrow> Inl MultipleObjectsReturned))"


definition row_op ::
  "(string \<Rightarrow> string list \<Rightarrow> string) \<Rightarrow> database \<Rightarrow> gso_unit \<Rightarrow> string \<Rightarrow> user \<Rightarrow>
   ipmt_row \<Rightarrow> draft_op" where
  "row_op gen db unit month user row =
     (case row_indicator row of
        None \<Rightarrow> Fail KeyError
      | Some code \<Rightarrow>
          (case resolve_indicator db unit code of
             None \<Rightarrow> Skip
           | Some indicator \<Rightarrow>
               (let matched =
                      resolve_wars db user indicator
                        (case row_war_ids row of None \<Rightarrow> [] | Some ids \<Rightarrow> ids);
                    accomplishment = accomplishment_text gen indicator row matched;
                    remarks = text_or (row_remarks row) accomplishment
                in Upsert \<lparr>draft_id = 0, draft_personnel = user, draft_unit = unit,
                           draft_month = month, draft_indicator = indicator,
                           draft_accomplishment = Some accomplishment,
                           draft_remarks = Some remarks, draft_status = ''draft'',
                           draft_reports = war_ids_of matched\<rparr>)))"

definition person_ops ::
  "(string \<Rightarrow> string list \<Rightarrow> string) \<Rightarrow> database \<Rightarrow> gso_unit \<Rightarrow> string \<Rightarrow>
   ipmt_row list \<Rightarrow> string \<Rightarrow> draft_op list" where
  "person_ops gen db unit month rows person_name =
     (case resolve_user (users db) person_name of
        Inl e \<Rightarrow> [Fail e]
      | Inr None \<Rightarrow> []
      | Inr (Some user) \<Rightarrow> map (row_op gen db unit month user) rows)"

definition pk_unique :: "ipmt_draft list \<Rightarrow> bool" where
  "pk_unique tbl \<longleftrightarrow> distinct (map draft_id tbl)"


definition rows_of :: "draft_key \<Rightarrow> ipmt_draft list \<Rightarrow> ipmt_draft list" where
  "rows_of k tbl = filter (\<lambda>d. key_of d = k) tbl"

definition upsert_row :: "ipmt_draft \<Rightarrow> ipmt_draft \<Rightarrow> ipmt_draft" where
  "upsert_row tpl r = (if key_of r = key_of tpl then set_values tpl r else r)"



section \<open>Example objects\<close>

definition engineering :: gso_unit where
  "engineering = \<lparr>u_id = 1, u_name = ''Engineering''\<rparr>"

definition juan :: user where
  "juan = \<lparr>user_id = 1, first_name = ''Juan'', full_name = ''Juan Dela Cruz'',
            username = ''jdcruz''\<rparr>"

definition war0 :: work_accomplishment_report where
  "war0 =
     \<lparr>war_id = None, war_request = None, war_unit = engineering,
      war_assigned_personnel = [juan],
      war_date_started = Date \<lparr>d_year = 2025, d_month = 9, d_day = 10\<rparr>,
      war_project_name = None, war_description = ''road repair on Main St'',
      war_status = ''Completed'',
      material_cost = Some \<lparr>dec_coeff = 1205, dec_places = 1\<rparr>,
      labor_cost = Some \<lparr>dec_coeff = 5, dec_places = 0\<rparr>,
      total_cost = Some \<lparr>dec_coeff = 0, dec_places = 0\<rparr>,
      war_activity_name = ''Repair''\<rparr>"

definition war1 :: work_accomplishment_report where
  "war1 =
     war0\<lparr>war_id := Some 1,
          material_cost := Some \<lparr>dec_coeff = 12050, dec_places = 2\<rparr>,
          labor_cost := Some \<lparr>dec_coeff = 500, dec_places = 2\<rparr>,
          total_cost := Some \<lparr>dec_coeff = 12550, dec_places = 2\<rparr>\<rparr>"

definition war2 :: work_accomplishment_report where
  "war2 = war1\<lparr>war_id := Some 2, war_description := ''Road repair near the market''\<rparr>"


definition request0 :: service_request where
  "request0 =
     \<lparr>sr_id = 3, sr_department = None, sr_unit = Some engineering,
      sr_description = ''Replace the street lamp'',
      sr_created_at =
        \<lparr>dt_date = \<lparr>d_year = 2025, d_month = 9, d_day = 2\<rparr>, dt_seconds = 30600,
         dt_aware = True\<rparr>,
      sr_assigned_personnel = [], sr_status = ''Completed'', sr_rating = None\<rparr>"

definition cf1 :: success_indicator where
  "cf1 = \<lparr>si_id = 1, si_unit = engineering, si_code = ''CF1'',
           si_description = ''Road Repair'', si_is_active = True,
           si_activity_name = ''Repair''\<rparr>"

definition db0 :: database where
  "db0 = \<lparr>units = [engineering], users = [juan], success_indicators = [cf1],
           wars = [war1, war2], ipmt_drafts = []\<rparr>"

definition db_no_indicator :: database where
  "db_no_indicator = db0\<lparr>success_indicators := [cf1\<lparr>si_is_active := False\<rparr>]\<rparr>"

definition plumbing :: activity_name where
  "plumbing = \<lparr>an_name = ''Plumbing'', an_keywords = ''Pipe, leak ,,faucet'',
                an_is_active = False\<rparr>"

definition misc :: activity_name where
  "misc = \<lparr>an_name = ''Miscellaneous'', an_keywords = '''', an_is_active = True\<rparr>"

definition summary0 :: "string \<Rightarrow> string list \<Rightarrow> string" where
  "summary0 code descriptions = code @ '': '' @ join ''; '' descriptions"

definition row1 :: ipmt_row where
  "row1 = \<lparr>row_indicator = Some ''CF1'', row_war_ids = Some [1, 2, 5],
            row_description = None, row_accomplishment = Some '''', row_remarks = None\<rparr>"

definition request1 :: http_request where
  "request1 =
     \<lparr>request_method = ''POST'',
      request_body =
        Some \<lparr>payload_month = Some ''2025-09'', payload_unit = Some ''engineering'',
              payload_personnel = [''Juan Dela Cruz'', ''Nobody''],
              payload_rows = [row1]\<rparr>\<rparr>"

definition draft1 :: ipmt_draft where
  "draft1 =
     \<lparr>draft_id = 1, draft_personnel = juan, draft_unit = engineering,
      draft_month = ''2025-09'', draft_indicator = cf1,
      draft_accomplishment =
        Some ''CF1: road repair on Main St; Road repair near the market'',
      draft_remarks = Some ''CF1: road repair on Main St; Road repair near the market'',
      draft_status = ''draft'', draft_reports = {1, 2}\<rparr>"

definition stale_draft :: ipmt_draft where
  "stale_draft =
     draft1\<lparr>draft_id := 4, draft_accomplishment := Some ''old text'',
            draft_remarks := None, draft_status := ''final'', draft_reports := {2, 7}\<rparr>"

lemmas string_defs =
  lower_def lower_char_def is_space_def strip_def split_ws_def first_token_def
  digit_val_def py_int_def digit_char_def str_int_def fmt_02d_def str_nat.simps
  iexact_def text_or_def

lemmas example_defs =
  engineering_def juan_def war0_def war1_def war2_def request0_def cf1_def db0_def
  db_no_indicator_def
  plumbing_def
  misc_def summary0_def row1_def request1_def draft1_def stale_draft_def

lemmas matcher_defs =
  collect_ipmt_reports_def get_unit_def candidate_wars_def unit_month_wars_def
  in_month_def date_of_def names_all_def filter_by_first_name_def
  active_indicators_def report_row_def war_matches_def month_key_def

lemmas export_defs =
  generate_ipmt_excel_def parse_month_filter_def export_personnel_def
  month_personnel_def person_sheet_def month_name_def month_names_def data_frame_def
  report_cells_def sheet_title_of_def display_name_def

lemmas builder_defs =
  save_ipmt_def resolve_user_def save_row_def resolve_indicator_def resolve_wars_def
  accomplishment_text_def update_or_create_def key_matches_def fresh_draft_id_def
  set_reports_def war_ids_of_def

section \<open>The stored total and the costs\<close>

text \<open>Amounts of at most two places go into a column as they are, and so do their sums.\<close>

lemma hundredths_exact:
  assumes "dec_places d \<le> 2"
  shows "hundredths d * 10 ^ dec_places d = dec_coeff d * 100"
proof -
  have "(10::int) ^ (2 - dec_places d) * 10 ^ dec_places d = 10 ^ 2"
    using assms by (simp flip: power_add)
  then have "dec_coeff d * (10 ^ (2 - dec_places d) * 10 ^ dec_places d) = dec_coeff d * 100"
    by simp
  then show ?thesis using assms by (simp add: hundredths_def mult.assoc)
qed











section \<open>The Indicator Matcher picks the first containing report\<close>

text \<open>\<open>contains\<close> is the substring relation.\<close>

lemma starts_with_iff: "starts_with sub s \<longleftrightarrow> (\<exists>post. s = sub @ post)"
  by (induction sub s rule: starts_with.induct) auto

lemma contains_iff: "contains sub s \<longleftrightarrow> (\<exists>pre post. s = pre @ sub @ post)"
proof (induction s)
  case Nil
  then show ?case by auto
next
  case (Cons d ds)
  show ?case
  proof
    assume "contains sub (d # ds)"
    then consider "starts_with sub (d # ds)" | "contains sub ds" by auto
    then show "\<exists>pre post. d # ds = pre @ sub @ post"
    proof cases
      case 1
      then obtain post where "d # ds = sub @ post" by (auto simp: starts_with_iff)
      then have "d # ds = [] @ sub @ post" by simp
      then show ?thesis by blast
    next
      case 2
      then obtain pre post where "ds = pre @ sub @ post" using Cons.IH by auto
      then have "d # ds = (d # pre) @ sub @ post" by simp
      then show ?thesis by blast
    qed
  next
    assume "\<exists>pre post. d # ds = pre @ sub @ post"
    then obtain pre post where eq: "d # ds = pre @ sub @ post" by auto
    show "contains sub (d # ds)"
    proof (cases pre)
      case Nil
      with eq have "starts_with sub (d # ds)" by (auto simp: starts_with_iff)
      then show ?thesis by simp
    next
      case (Cons p ps)
      with eq have "ds = ps @ sub @ post" by simp
      then have "contains sub ds" using Cons.IH by blast
      then show ?thesis by simp
    qed
  qed
qed

lemma find_matched_war_None:
  "find_matched_war ind ws = None \<longleftrightarrow> (\<forall>w\<in>set ws. \<not> war_matches ind w)"
  by (induction ws) auto

lemma find_matched_war_Some:
  "find_matched_war ind ws = Some w \<Longrightarrow>
   \<exists>j<length ws. ws ! j = w \<and> war_matches ind w \<and> (\<forall>i<j. \<not> war_matches ind (ws ! i))"
proof (induction ws)
  case Nil
  then show ?case by simp
next
  case (Cons x xs)
  show ?case
  proof (cases "war_matches ind x")
    case True
    with Cons.prems have "x = w" by simp
    with True have "(x # xs) ! 0 = w \<and> war_matches ind w \<and> (\<forall>i<0. \<not> war_matches ind ((x # xs) ! i))"
      by simp
    then show ?thesis by blast
  next
    case False
    with Cons.prems have "find_matched_war ind xs = Some w" by simp
    then obtain j where j: "j < length xs" "xs ! j = w" "war_matches ind w"
      "\<forall>i<j. \<not> war_matches ind (xs ! i)"
      using Cons.IH by blast
    have "\<forall>i<Suc j. \<not> war_matches ind ((x # xs) ! i)"
      using False j(4) by (auto simp: less_Suc_eq_0_disj)
    with j have "Suc j < length (x # xs) \<and> (x # xs) ! Suc j = w \<and> war_matches ind w
        \<and> (\<forall>i<Suc j. \<not> war_matches ind ((x # xs) ! i))"
      by simp
    then show ?thesis by blast
  qed
qed

lemma war_matches_iff:
  "war_matches indicator war \<longleftrightarrow>
   (\<exists>pre post. lower (war_description war) = pre @ lower (si_description indicator) @ post)"
  by (simp add: war_matches_def contains_iff)

text \<open>
  C3. When the unit resolves and the call returns, there is one row for each active
  indicator of the unit, in their order, and each row carries at most one report id:
  none when no candidate report matches the indicator, and otherwise the id (and the
  description) of the candidate at the least position of the scan whose lower-cased
  description contains the indicator's lower-cased description (\<open>war_matches\<close>,
  see \<open>war_matches_iff\<close>).
\<close>

theorem collect_first_match_wins:
  assumes "collect_ipmt_reports db year month_num unit_name personnel_names = Inr reports"
    and "get_unit (units db) unit_name = Inr unit"
  shows "\<exists>candidates.
           candidate_wars db unit year month_num personnel_names = Inr candidates
         \<and> length reports = length (active_indicators db unit)
         \<and> (\<forall>k<length reports.
              rep_indicator (reports ! k) = si_code (active_indicators db unit ! k)
            \<and> ((rep_war_id (reports ! k) = None
                  \<and> rep_description (reports ! k) = []
                  \<and> (\<forall>w\<in>set candidates. \<not> war_matches (active_indicators db unit ! k) w))
               \<or> (\<exists>j<length candidates.
                     war_matches (active_indicators db unit ! k) (candidates ! j)
                   \<and> (\<forall>i<j. \<not> war_matches (active_indicators db unit ! k) (candidates ! i))
                   \<and> rep_war_id (reports ! k) = war_id (candidates ! j)
                   \<and> rep_description (reports ! k) = war_description (candidates ! j))))"
proof -
  from assms obtain candidates where
    cands: "candidate_wars db unit year month_num personnel_names = Inr candidates"
    and reps: "reports = map (report_row db unit year month_num candidates) (active_indicators db unit)"
    by (auto simp: collect_ipmt_reports_def split: sum.splits)
  have "rep_indicator (reports ! k) = si_code (active_indicators db unit ! k)
            \<and> ((rep_war_id (reports ! k) = None
                  \<and> rep_description (reports ! k) = []
                  \<and> (\<forall>w\<in>set candidates. \<not> war_matches (active_indicators db unit ! k) w))
               \<or> (\<exists>j<length candidates.
                     war_matches (active_indicators db unit ! k) (candidates ! j)
                   \<and> (\<forall>i<j. \<not> war_matches (active_indicators db unit ! k) (candidates ! i))
                   \<and> rep_war_id (reports ! k) = war_id (candidates ! j)
                   \<and> rep_description (reports ! k) = war_description (candidates ! j)))"
    if k: "k < length reports" for k
  proof -
    let ?ind = "active_indicators db unit ! k"
    have row: "reports ! k = report_row db unit year month_num candidates ?ind"
      using k reps by simp
    show ?thesis
    proof (cases "find_matched_war ?ind candidates")
      case None
      then have "\<forall>w\<in>set candidates. \<not> war_matches ?ind w"
        by (simp add: find_matched_war_None)
      with None row show ?thesis by (simp add: report_row_def)
    next
      case (Some w)
      from find_matched_war_Some [OF Some] obtain j where
        "j < length candidates" "candidates ! j = w" "war_matches ?ind w"
        "\<forall>i<j. \<not> war_matches ?ind (candidates ! i)"
        by blast
      moreover from Some row have "rep_indicator (reports ! k) = si_code ?ind"
        "rep_war_id (reports ! k) = war_id w" "rep_description (reports ! k) = war_description w"
        by (simp_all add: report_row_def)
      ultimately show ?thesis by blast
    qed
  qed
  with cands reps show ?thesis by auto
qed

theorem collect_first_match_wins_witness:
  "collect_ipmt_reports db0 2025 9 (Some ''ENGINEERING'') (Some [''Juan''])
     = Inr [\<lparr>rep_indicator = ''CF1'', rep_description = ''road repair on Main St'',
             rep_remarks = Some '''', rep_war_id = Some 1\<rparr>]
   \<and> get_unit (units db0) (Some ''ENGINEERING'') = Inr engineering
   \<and> candidate_wars db0 engineering 2025 9 (Some [''Juan'']) = Inr [war1, war2]
   \<and> war_matches cf1 war1 \<and> war_matches cf1 war2"
proof -
  have unit: "get_unit (units db0) (Some ''ENGINEERING'') = Inr engineering"
    by (simp add: matcher_defs example_defs string_defs)
  have cands: "candidate_wars db0 engineering 2025 9 (Some [''Juan'']) = Inr [war1, war2]"
    by (simp add: matcher_defs example_defs string_defs)
  have both: "war_matches cf1 war1" "war_matches cf1 war2"
    by (simp_all add: war_matches_def example_defs string_defs)
  have run: "collect_ipmt_reports db0 2025 9 (Some ''ENGINEERING'') (Some [''Juan''])
     = Inr [\<lparr>rep_indicator = ''CF1'', rep_description = ''road repair on Main St'',
             rep_remarks = Some '''', rep_war_id = Some 1\<rparr>]"
    by (simp add: matcher_defs example_defs string_defs)
  from collect_first_match_wins [OF run unit] cands
  have "\<exists>candidates. candidate_wars db0 engineering 2025 9 (Some [''Juan'']) = Inr candidates"
    by blast
  with run unit cands both show ?thesis by simp
qed

text \<open>
  C6. When no unit has the given name up to the case of letters, the matcher returns
  the empty list and raises nothing, whatever the other arguments are.
\<close>

theorem collect_unknown_unit_empty:
  assumes "\<forall>u\<in>set (units db). \<not> iexact (u_name u) n"
  shows "collect_ipmt_reports db year month_num (Some n) personnel_names = Inr []"
proof -
  have "filter (\<lambda>u. iexact (u_name u) n) (units db) = []"
    using assms by (simp add: filter_empty_conv)
  then have "get_unit (units db) (Some n) = Inl DoesNotExist"
    by (simp add: get_unit_def)
  then show ?thesis by (simp add: collect_ipmt_reports_def)
qed

lemma collect_no_unit_name_empty:
  "collect_ipmt_reports db year month_num None personnel_names = Inr []"
  by (simp add: collect_ipmt_reports_def get_unit_def)

theorem collect_unknown_unit_empty_witness:
  "units db0 = [engineering]
   \<and> \<not> iexact (u_name engineering) ''Nowhere''
   \<and> collect_ipmt_reports db0 2025 9 (Some ''Nowhere'') (Some ['''']) = Inr []"
proof -
  have units: "units db0 = [engineering]" by (simp add: db0_def)
  have other: "\<not> iexact (u_name engineering) ''Nowhere''"
    by (simp add: engineering_def string_defs)
  from units other have "\<forall>u\<in>set (units db0). \<not> iexact (u_name u) ''Nowhere''"
    by simp
  from collect_unknown_unit_empty [OF this] units other show ?thesis by simp
qed

section \<open>Claims about the classifier\<close>

lemma first_keyword_match_None:
  "first_keyword_match d tbl = None \<longleftrightarrow> (\<forall>a\<in>set tbl. \<not> keyword_hit d a)"
  by (induction tbl) auto

lemma first_keyword_match_Some:
  "first_keyword_match d tbl = Some a \<Longrightarrow> a \<in> set tbl \<and> keyword_hit d a"
  by (induction tbl) (auto split: if_splits)

lemma keyword_hit_iff:
  "keyword_hit d a \<longleftrightarrow> (\<exists>kw\<in>set (keyword_list a). \<exists>pre post. d = pre @ kw @ post)"
  by (simp add: keyword_hit_def list_ex_iff contains_iff)

lemma miscellaneous_None:
  "miscellaneous tbl = None \<longleftrightarrow> (\<forall>a\<in>set tbl. an_name a \<noteq> ''Miscellaneous'')"
  by (auto simp: miscellaneous_def find_None_iff)

lemma miscellaneous_Some:
  "miscellaneous tbl = Some m \<Longrightarrow> m \<in> set tbl \<and> an_name m = ''Miscellaneous''"
  by (auto simp: miscellaneous_def find_Some_iff)

text \<open>
  C4, as the code has it. When the text is empty, or no keyword of any activity occurs
  in the lower-cased text, \<open>map_activity_name\<close> returns the activity named
  Miscellaneous if the catalog has one; if it has none, the call returns \<open>None\<close>. It
  does not raise.
\<close>

theorem map_activity_name_fallback:
  assumes "description = []
         \<or> (\<forall>a\<in>set tbl. \<forall>kw\<in>set (keyword_list a). \<not> contains kw (lower description))"
  shows "(\<exists>m. m \<in> set tbl \<and> an_name m = ''Miscellaneous''
             \<and> map_activity_name description tbl = Inr (Some m))
       \<or> ((\<forall>a\<in>set tbl. an_name a \<noteq> ''Miscellaneous'')
             \<and> map_activity_name description tbl = Inr None)"
proof -
  from assms have "description = [] \<or> first_keyword_match (lower description) tbl = None"
    by (auto simp: first_keyword_match_None keyword_hit_def list_ex_iff)
  then have res: "map_activity_name description tbl = Inr (miscellaneous tbl)"
    by (auto simp: map_activity_name_def)
  show ?thesis
  proof (cases "miscellaneous tbl")
    case None
    with res show ?thesis by (simp add: miscellaneous_None)
  next
    case (Some m)
    with res miscellaneous_Some [OF Some] show ?thesis by auto
  qed
qed

theorem map_activity_name_fallback_witness:
  "map_activity_name ''Fix the roof'' [plumbing, misc] = Inr (Some misc)
   \<and> keyword_list plumbing = [''pipe'', ''leak'', ''faucet'']
   \<and> keyword_list misc = []"
proof -
  have kws: "keyword_list plumbing = [''pipe'', ''leak'', ''faucet'']" "keyword_list misc = []"
    by (simp_all add: keyword_list_def plumbing_def misc_def string_defs)
  have hyp: "''Fix the roof'' = []
      \<or> (\<forall>a\<in>set [plumbing, misc]. \<forall>kw\<in>set (keyword_list a).
            \<not> contains kw (lower ''Fix the roof''))"
    by (simp add: kws string_defs)
  have names: "an_name plumbing \<noteq> ''Miscellaneous''" "an_name misc = ''Miscellaneous''"
    by (simp_all add: plumbing_def misc_def)
  from map_activity_name_fallback [OF hyp] names
  have "map_activity_name ''Fix the roof'' [plumbing, misc] = Inr (Some misc)"
    by auto
  with kws show ?thesis by simp
qed

text \<open>
  The claim C4 as it is written fails: with no activity named Miscellaneous in the
  catalog and a text that matches no keyword, the call returns \<open>None\<close> and raises
  nothing.
\<close>

theorem map_activity_name_none_counterexample:
  "map_activity_name ''Fix the roof'' [plumbing] = Inr None
   \<and> miscellaneous [plumbing] = None
   \<and> \<not> keyword_hit (lower ''Fix the roof'') plumbing"
  by (simp add: map_activity_name_def miscellaneous_def keyword_hit_def keyword_list_def
      plumbing_def string_defs)

text \<open>
  C5. The loop of \<open>map_activity_name\<close> runs over every activity and never reads
  \<open>is_active\<close>: an activity that is not active is returned when one of its keywords
  occurs in the text.
\<close>

theorem map_activity_name_returns_inactive:
  "map_activity_name ''Fix the PIPE'' [plumbing, misc] = Inr (Some plumbing)
   \<and> an_is_active plumbing = False"
  by (simp add: map_activity_name_def keyword_hit_def keyword_list_def
      plumbing_def misc_def string_defs)

section \<open>Claims about the normalizer\<close>

text \<open>
  C10. \<open>normalize_report\<close> gives no row for an object that is neither a service request
  nor a work accomplishment report; for each of those two it gives a row, whose list of
  personnel is not empty and is \<open>["Unassigned"]\<close> when nobody is assigned.
\<close>

theorem normalize_report_partial:
  "normalize_report (Another_object cls) = None
   \<and> (\<exists>row. normalize_report (A_service_request r) = Some row
          \<and> nr_personnel row \<noteq> []
          \<and> (sr_assigned_personnel r = [] \<longrightarrow> nr_personnel row = [''Unassigned'']))
   \<and> (\<exists>row. normalize_report (A_work_accomplishment_report w) = Some row
          \<and> nr_personnel row \<noteq> []
          \<and> (war_assigned_personnel w = [] \<longrightarrow> nr_personnel row = [''Unassigned'']))"
  by (simp add: normalize_report_def personnel_list_def)

theorem normalize_report_partial_witness:
  "normalize_report (Another_object ''User'') = None
   \<and> (\<exists>row. normalize_report (A_service_request request0) = Some row
          \<and> nr_personnel row = [''Unassigned''])
   \<and> (\<exists>row. normalize_report (A_work_accomplishment_report war1) = Some row
          \<and> nr_personnel row = [''Juan Dela Cruz''])"
proof -
  have "sr_assigned_personnel request0 = []"
    by (simp add: request0_def)
  moreover have "normalize_report (A_work_accomplishment_report war1) = Some row
      \<Longrightarrow> nr_personnel row = [''Juan Dela Cruz'']" for row
    by (auto simp: normalize_report_def personnel_list_def display_name_def war1_def war0_def juan_def)
  ultimately show ?thesis
    using normalize_report_partial [of "''User''" request0 war1] by auto
qed

section \<open>Claims about the export\<close>


lemma person_sheet_returns:
  assumes "collect_ipmt_reports db year month_num unit_name (Some [person]) = Inr reports"
    and "- 13 \<le> month_num" and "month_num \<le> 12"
  shows "\<exists>s. person_sheet db year month_num unit_name person = Inr s"
  using assms by (simp add: person_sheet_def month_name_def)






text \<open>
  C7. The month filter \<open>13-99\<close> is not refused: both parts convert to integers, so the
  parse gives year 13 and month 99. With nobody to render the builder returns a
  workbook; with a person to render, the month name is looked up out of range and an
  \<open>IndexError\<close> leaves the builder, which the view does not catch.
\<close>

theorem export_month_13_99:
  "parse_month_filter ''13-99'' = Inr (13, 99)
   \<and> generate_ipmt_excel db0 ''13-99'' (Some ''Engineering'') None = Inr []
   \<and> generate_ipmt_excel db0 ''13-99'' (Some ''Engineering'') (Some [''Juan''])
       = Inl IndexError
   \<and> generate_ipmt db0 (Some ''13-99'') ''Engineering'' [] = Workbook []
   \<and> generate_ipmt db0 (Some ''13-99'') ''Engineering'' [''Juan''] = Uncaught IndexError"
proof -
  have parse: "parse_month_filter ''13-99'' = Inr (13, 99)"
    by (simp add: parse_month_filter_def string_defs)
  have nobody: "generate_ipmt_excel db0 ''13-99'' (Some ''Engineering'') None = Inr []"
    by (simp add: parse export_defs matcher_defs example_defs string_defs)
  have nobody': "generate_ipmt_excel db0 ''13-99'' (Some ''Engineering'') (Some []) = Inr []"
    by (simp add: parse export_defs matcher_defs example_defs string_defs)
  have juan: "generate_ipmt_excel db0 ''13-99'' (Some ''Engineering'') (Some [''Juan''])
       = Inl IndexError"
    by (simp add: parse export_defs matcher_defs example_defs string_defs)
  from parse nobody nobody' juan show ?thesis
    by (simp add: generate_ipmt_def)
qed

text \<open>What the parse does refuse: a filter that does not split at \<open>-\<close> into exactly two
  parts, or a part that is not an integer literal.\<close>

lemma parse_month_filter_refuses:
  "parse_month_filter month_filter
     = Inl (ValueError ''Month filter must be in 'YYYY-MM' format.'')
   \<longleftrightarrow> \<not> (\<exists>a b y m. split_on CHR ''-'' month_filter = [a, b]
                    \<and> py_int a = Some y \<and> py_int b = Some m)"
  by (auto simp: parse_month_filter_def split: list.splits option.splits)

section \<open>Claims about the draft builder\<close>

lemma fresh_draft_id_new: "r \<in> set tbl \<Longrightarrow> draft_id r < fresh_draft_id tbl"
proof -
  assume "r \<in> set tbl"
  then have "draft_id r \<in> set (0 # map draft_id tbl)" by simp
  then have "draft_id r \<le> Max (set (0 # map draft_id tbl))" by (intro Max_ge) auto
  also have "\<dots> = fold max (map draft_id tbl) 0" by (rule Max.set_eq_fold)
  finally show ?thesis by (simp add: fresh_draft_id_def)
qed

lemma key_matches_key_of:
  "key_matches (draft_personnel tpl) (draft_unit tpl) (draft_month tpl) (draft_indicator tpl) d
   \<longleftrightarrow> key_of d = key_of tpl"
  by (auto simp: key_matches_def key_of_def)

lemma filter_single_iff:
  assumes "filter P xs = [d]" and "r \<in> set xs" and "distinct (map f xs)"
  shows "P r \<longleftrightarrow> f r = f d"
proof -
  have "d \<in> set (filter P xs)" using assms(1) by simp
  then have d: "d \<in> set xs" "P d" by simp_all
  have inj: "inj_on f (set xs)" using assms(3) by (simp add: distinct_map)
  show ?thesis
  proof
    assume "P r"
    with assms(2) have "r \<in> set (filter P xs)" by simp
    with assms(1) show "f r = f d" by simp
  next
    assume "f r = f d"
    with inj assms(2) d(1) have "r = d" by (auto dest: inj_onD)
    with d(2) show "P r" by simp
  qed
qed

text \<open>On a table with distinct primary keys, \<open>update_or_create\<close> followed by
  \<open>reports.set\<close> is the upsert of the template.\<close>

lemma upsert_is_apply_op:
  fixes tpl :: ipmt_draft
  assumes "pk_unique tbl"
  shows "(case update_or_create (draft_personnel tpl) (draft_unit tpl) (draft_month tpl)
                (draft_indicator tpl) acc rem tbl of
            Inl e \<Rightarrow> Inl e
          | Inr (obj, tbl') \<Rightarrow> Inr (set_reports (draft_id obj) links tbl'))
         = apply_op (Upsert \<lparr>draft_id = 0, draft_personnel = draft_personnel tpl,
               draft_unit = draft_unit tpl, draft_month = draft_month tpl,
               draft_indicator = draft_indicator tpl, draft_accomplishment = Some acc,
               draft_remarks = Some rem, draft_status = ''draft'', draft_reports = links\<rparr>) tbl"
    (is "?lhs = apply_op (Upsert ?t) tbl")
proof -
  have keyt: "key_of ?t = key_of tpl" by (simp add: key_of_def)
  have flt: "filter (key_matches (draft_personnel tpl) (draft_unit tpl) (draft_month tpl)
      (draft_indicator tpl)) tbl = filter (\<lambda>d. key_of d = key_of tpl) tbl"
    by (intro filter_cong refl) (simp add: key_matches_key_of)
  show ?thesis
  proof (cases "filter (\<lambda>d. key_of d = key_of tpl) tbl")
    case Nil
    have "set_reports (fresh_draft_id tbl) links tbl = tbl"
      unfolding set_reports_def
      by (intro map_idI) (auto dest: fresh_draft_id_new)
    with Nil flt keyt show ?thesis
      by (simp add: update_or_create_def apply_op_def Let_def set_reports_def)
  next
    case (Cons d ds)
    show ?thesis
    proof (cases ds)
      case Nil
      with Cons have single: "filter (\<lambda>d. key_of d = key_of tpl) tbl = [d]" by simp
      have same: "(key_of r = key_of tpl) \<longleftrightarrow> (draft_id r = draft_id d)" if "r \<in> set tbl" for r
        using filter_single_iff [OF single that] assms by (simp add: pk_unique_def)
      have "d \<in> set (filter (\<lambda>d. key_of d = key_of tpl) tbl)" using single by simp
      then have dd: "d \<in> set tbl" by simp
      have eqd: "r = d" if "r \<in> set tbl" "draft_id r = draft_id d" for r
        using that dd assms by (auto simp: pk_unique_def distinct_map dest: inj_onD)
      have "map (\<lambda>r. if draft_id r = draft_id d then r\<lparr>draft_reports := links\<rparr> else r)
              (map (\<lambda>r. if draft_id r = draft_id d
                         then d\<lparr>draft_accomplishment := Some acc, draft_remarks := Some rem\<rparr>
                         else r) tbl)
          = map (\<lambda>r. if key_of r = key_of tpl then set_values ?t r else r) tbl"
        using same eqd by (auto simp: set_values_def)
      with single flt keyt show ?thesis
        by (simp add: update_or_create_def apply_op_def Let_def set_reports_def)
    next
      case (Cons e es)
      with \<open>filter (\<lambda>d. key_of d = key_of tpl) tbl = d # ds\<close> flt keyt show ?thesis
        by (simp add: update_or_create_def apply_op_def)
    qed
  qed
qed

lemma save_row_is_apply_op:
  assumes "pk_unique tbl"
  shows "save_row gen db unit month user row tbl = apply_op (row_op gen db unit month user row) tbl"
proof (cases "row_indicator row")
  case None
  then show ?thesis by (simp add: save_row_def row_op_def apply_op_def)
next
  case (Some code)
  show ?thesis
  proof (cases "resolve_indicator db unit code")
    case None
    with Some show ?thesis by (simp add: save_row_def row_op_def apply_op_def)
  next
    case (Some indicator)
    let ?tpl = "\<lparr>draft_id = 0, draft_personnel = user, draft_unit = unit,
       draft_month = month, draft_indicator = indicator,
       draft_accomplishment = None, draft_remarks = None, draft_status = [],
       draft_reports = {}\<rparr>"
    from upsert_is_apply_op [OF assms, where tpl = ?tpl] Some \<open>row_indicator row = Some code\<close>
    show ?thesis
      by (simp add: save_row_def row_op_def Let_def)
  qed
qed

lemma key_of_set_values [simp]: "key_of (set_values tpl r) = key_of r"
  by (simp add: set_values_def key_of_def)

lemma set_values_twice [simp]: "set_values tpl (set_values tpl' r) = set_values tpl r"
  by (simp add: set_values_def)

lemma key_of_upsert_row [simp]: "key_of (upsert_row tpl r) = key_of r"
  by (simp add: upsert_row_def)

lemma set_values_new [simp]: "set_values tpl (tpl\<lparr>draft_id := i\<rparr>) = tpl\<lparr>draft_id := i\<rparr>"
  by (simp add: set_values_def)

lemma key_of_new [simp]: "key_of (tpl\<lparr>draft_id := i\<rparr>) = key_of tpl"
  by (simp add: key_of_def)

lemma rows_of_map_upsert:
  "rows_of k (map (upsert_row tpl) tbl) = map (upsert_row tpl) (rows_of k tbl)"
  by (induction tbl) (auto simp: rows_of_def)

lemma apply_op_Upsert_cases:
  assumes "apply_op (Upsert tpl) tbl = Inr tbl'"
  obtains (created) "rows_of (key_of tpl) tbl = []"
      "tbl' = tbl @ [tpl\<lparr>draft_id := fresh_draft_id tbl\<rparr>]"
    | (updated) d where "rows_of (key_of tpl) tbl = [d]" "tbl' = map (upsert_row tpl) tbl"
proof (cases "rows_of (key_of tpl) tbl")
  case Nil
  with assms have "tbl' = tbl @ [tpl\<lparr>draft_id := fresh_draft_id tbl\<rparr>]"
    by (simp add: apply_op_def rows_of_def)
  with Nil created show ?thesis by blast
next
  case (Cons d ds)
  with assms have ds: "ds = []"
    by (cases ds) (simp_all add: apply_op_def rows_of_def)
  with Cons assms have "tbl' = map (upsert_row tpl) tbl"
    by (auto simp: apply_op_def rows_of_def upsert_row_def)
  with Cons ds updated show ?thesis by blast
qed



lemma apply_op_rows_same:
  assumes "apply_op (Upsert tpl) tbl = Inr tbl'"
  shows "length (rows_of (key_of tpl) tbl') = 1
       \<and> (\<forall>r\<in>set tbl'. key_of r = key_of tpl \<longrightarrow> set_values tpl r = r)"
  using assms
proof (cases rule: apply_op_Upsert_cases)
  case created
  then have "\<forall>r\<in>set tbl. key_of r \<noteq> key_of tpl"
    by (auto simp: rows_of_def filter_empty_conv)
  with created show ?thesis by (auto simp: rows_of_def)
next
  case (updated d)
  then show ?thesis
    by (auto simp: rows_of_map_upsert upsert_row_def)
qed
















lemma row_op_drafts [simp]:
  "row_op gen (db\<lparr>ipmt_drafts := tbl\<rparr>) unit month user row = row_op gen db unit month user row"
  by (simp add: row_op_def resolve_indicator_def resolve_wars_def split: option.splits)

lemma person_ops_drafts [simp]:
  "person_ops gen (db\<lparr>ipmt_drafts := tbl\<rparr>) unit month rows = person_ops gen db unit month rows"
  by (rule ext) (simp add: person_ops_def split: sum.splits option.splits)



text \<open>
  C9. After the upsert of a row whose indicator resolves, exactly one draft stands
  under the key of person, unit, month and indicator, and its linked reports are
  exactly the reports resolved for this row, whatever the draft was linked to before.
\<close>

theorem save_row_replaces_links:
  assumes "pk_unique tbl"
    and "row_indicator row = Some code"
    and "resolve_indicator db unit code = Some indicator"
    and "save_row gen db unit month user row tbl = Inr tbl'"
  shows "\<exists>d. filter (key_matches user unit month indicator) tbl' = [d]
           \<and> draft_reports d
               = war_ids_of (resolve_wars db user indicator
                   (case row_war_ids row of None \<Rightarrow> [] | Some ids \<Rightarrow> ids))"
proof -
  let ?matched = "resolve_wars db user indicator
                   (case row_war_ids row of None \<Rightarrow> [] | Some ids \<Rightarrow> ids)"
  obtain tpl where op: "row_op gen db unit month user row = Upsert tpl"
    and tpl: "draft_personnel tpl = user" "draft_unit tpl = unit" "draft_month tpl = month"
      "draft_indicator tpl = indicator" "draft_reports tpl = war_ids_of ?matched"
    using assms(2,3) by (simp add: row_op_def Let_def)
  have "apply_op (Upsert tpl) tbl = Inr tbl'"
    using assms(1,4) op by (simp add: save_row_is_apply_op)
  from apply_op_rows_same [OF this]
  have one: "length (rows_of (key_of tpl) tbl') = 1"
    and vals: "\<forall>r\<in>set tbl'. key_of r = key_of tpl \<longrightarrow> set_values tpl r = r"
    by simp_all
  from one obtain d where d: "rows_of (key_of tpl) tbl' = [d]"
    by (cases "rows_of (key_of tpl) tbl'") auto
  then have "d \<in> set (rows_of (key_of tpl) tbl')" by simp
  then have "d \<in> set tbl'" "key_of d = key_of tpl" by (simp_all add: rows_of_def)
  with vals have "set_values tpl d = d" by blast
  then have "draft_reports d = draft_reports tpl"
    by (metis set_values_def ipmt_draft.select_convs(9) ipmt_draft.surjective ipmt_draft.update_convs(9))
  moreover have "filter (key_matches user unit month indicator) tbl' = rows_of (key_of tpl) tbl'"
    unfolding rows_of_def using tpl key_matches_key_of [of tpl]
    by (intro filter_cong refl) simp
  ultimately show ?thesis using d tpl(5) by simp
qed

theorem save_row_replaces_links_witness:
  "pk_unique [stale_draft]
   \<and> draft_reports stale_draft = {2, 7}
   \<and> save_row summary0 db0 engineering ''2025-09'' juan row1 [stale_draft]
       = Inr [draft1\<lparr>draft_id := 4, draft_status := ''final''\<rparr>]
   \<and> draft_reports (draft1\<lparr>draft_id := 4, draft_status := ''final''\<rparr>) = {1, 2}
   \<and> war_ids_of (resolve_wars db0 juan cf1 [1, 2, 5]) = {1, 2}"
proof -
  have pk: "pk_unique [stale_draft]"
    by (simp add: pk_unique_def)
  have ind: "row_indicator row1 = Some ''CF1''"
    by (simp add: row1_def)
  have res: "resolve_indicator db0 engineering ''CF1'' = Some cf1"
    by (simp add: resolve_indicator_def example_defs)
  have ids: "(case row_war_ids row1 of None \<Rightarrow> [] | Some ids \<Rightarrow> ids) = [1, 2, 5]"
    by (simp add: row1_def)
  have wars: "war_ids_of (resolve_wars db0 juan cf1 [1, 2, 5]) = {1, 2}"
    by (simp add: war_ids_of_def resolve_wars_def example_defs)
  have run: "save_row summary0 db0 engineering ''2025-09'' juan row1 [stale_draft]
       = Inr [draft1\<lparr>draft_id := 4, draft_status := ''final''\<rparr>]"
    by (simp add: builder_defs example_defs string_defs Let_def)
  from save_row_replaces_links [OF pk ind res run]
  have "\<exists>d. filter (key_matches juan engineering ''2025-09'' cf1)
               [draft1\<lparr>draft_id := 4, draft_status := ''final''\<rparr>] = [d]
           \<and> draft_reports d = {1, 2}"
    by (simp only: ids wars)
  then have "draft_reports (draft1\<lparr>draft_id := 4, draft_status := ''final''\<rparr>) = {1, 2}"
    by (auto split: if_splits)
  with pk run wars show ?thesis by (simp add: stale_draft_def)
qed

end
